theory Spec2Isabelle
  imports Complex_Main
begin

section \<open>Data model\<close>

text \<open>
  A float is NaN, one of the two infinities or a number; rounding plays no part in the
  properties below, so numbers are reals. A table is what
  \<^verbatim>\<open>price_data['close'].unstack()\<close> yields: one column per symbol, every column over the
  same time index, NaN where a symbol has no bar at a timestamp.
\<close>

datatype num = NaN | PosInf | NegInf | Num real

type_synonym 'a table = "(string \<times> 'a list) list"

datatype error = ValueError | AttributeError | ZeroDivisionError | TypeError

definition notna :: "num \<Rightarrow> bool" where
  "notna x = (x \<noteq> NaN)"

definition columns :: "'a table \<Rightarrow> string list" where
  "columns t = map fst t"

definition bind_err :: "error + 'a \<Rightarrow> ('a \<Rightarrow> error + 'b) \<Rightarrow> error + 'b" where
  "bind_err m f = (case m of Inl e \<Rightarrow> Inl e | Inr x \<Rightarrow> f x)"

text \<open>Float comparison and addition: NaN compares false with everything and absorbs a
  sum, and the two infinities cancel to NaN.\<close>

fun num_gt :: "num \<Rightarrow> num \<Rightarrow> bool" where
  "num_gt NaN _ = False"
| "num_gt _ NaN = False"
| "num_gt PosInf PosInf = False"
| "num_gt PosInf _ = True"
| "num_gt _ PosInf = False"
| "num_gt NegInf _ = False"
| "num_gt (Num x) NegInf = True"
| "num_gt (Num x) (Num y) = (x > y)"

fun num_add :: "num \<Rightarrow> num \<Rightarrow> num" where
  "num_add NaN _ = NaN"
| "num_add _ NaN = NaN"
| "num_add PosInf NegInf = NaN"
| "num_add NegInf PosInf = NaN"
| "num_add PosInf _ = PosInf"
| "num_add _ PosInf = PosInf"
| "num_add NegInf _ = NegInf"
| "num_add _ NegInf = NegInf"
| "num_add (Num x) (Num y) = Num (x + y)"

definition num_sum :: "num list \<Rightarrow> num" where
  "num_sum xs = foldl num_add (Num 0) xs"

fun num_div_count :: "num \<Rightarrow> nat \<Rightarrow> num" where
  "num_div_count (Num x) n = Num (x / real n)"
| "num_div_count v n = v"

section \<open>SMACrossoverStrategy\<close>

text \<open>
  \<^verbatim>\<open>sma_cross.py\<close>, \<^verbatim>\<open>__init__\<close>: the guard on the two windows comes after the base
  class has stored \<^verbatim>\<open>price_data\<close> and before any other field is set; a raise leaves the
  caller without a strategy object. \<^verbatim>\<open>filtered_close\<close> is an attribute that only
  \<^verbatim>\<open>generate_signals\<close> creates.
\<close>

record 'p sma_strategy =
  price_data :: "num table"
  fast_window :: int
  slow_window :: int
  signals :: "(bool table \<times> bool table) option"
  portfolio :: "'p option"
  filtered_close :: "num table option"

definition sma_init :: "num table \<Rightarrow> int \<Rightarrow> int \<Rightarrow> error + 'p sma_strategy" where
  "sma_init pd fw sw =
     (if fw \<ge> sw then Inl ValueError
      else Inr \<lparr>price_data = pd, fast_window = fw, slow_window = sw,
                signals = None, portfolio = None, filtered_close = None\<rparr>)"

subsection \<open>generate_signals\<close>

text \<open>
  \<^verbatim>\<open>close.notna().sum()\<close> counts the bars a symbol has; \<^verbatim>\<open>close[valid_symbols]\<close> picks the
  columns with the listed labels, in the order listed; \<^verbatim>\<open>Index.intersection\<close> keeps the
  labels of the left index that the right one has too.
\<close>

definition count_notna :: "num list \<Rightarrow> nat" where
  "count_notna col = length (filter notna col)"

definition select_columns :: "'a table \<Rightarrow> string list \<Rightarrow> 'a table" where
  "select_columns t cols = concat (map (\<lambda>s. filter (\<lambda>c. fst c = s) t) cols)"

definition intersection :: "string list \<Rightarrow> string list \<Rightarrow> string list" where
  "intersection xs ys = filter (\<lambda>s. s \<in> set ys) xs"

definition valid_symbols :: "num table \<Rightarrow> int \<Rightarrow> string list" where
  "valid_symbols close sw = columns (filter (\<lambda>c. int (count_notna (snd c)) \<ge> sw) close)"

text \<open>
  \<^verbatim>\<open>fast_ma > slow_ma\<close> compares two frames element by element and raises ValueError
  unless both carry the same labels; a bar inside the warm-up of either average
  compares false and carries neither signal. The difference of the two signal
  matrices, both cast to integers, is what \<^verbatim>\<open>generate_signals\<close> returns.
\<close>

definition aligned :: "'a table \<Rightarrow> 'b table \<Rightarrow> bool" where
  "aligned a b = (columns a = columns b \<and> map (length \<circ> snd) a = map (length \<circ> snd) b)"

definition frame_gt :: "num table \<Rightarrow> num table \<Rightarrow> error + bool table" where
  "frame_gt a b =
     (if aligned a b
      then Inr (map (\<lambda>(ca, cb). (fst ca, map (\<lambda>(x, y). num_gt x y) (zip (snd ca) (snd cb))))
                  (zip a b))
      else Inl ValueError)"

definition frame_lt :: "num table \<Rightarrow> num table \<Rightarrow> error + bool table" where
  "frame_lt a b =
     (if aligned a b
      then Inr (map (\<lambda>(ca, cb). (fst ca, map (\<lambda>(x, y). num_gt y x) (zip (snd ca) (snd cb))))
                  (zip a b))
      else Inl ValueError)"

definition astype_int :: "bool \<Rightarrow> int" where
  "astype_int b = (if b then 1 else 0)"

definition signal_frame :: "bool table \<Rightarrow> bool table \<Rightarrow> int table" where
  "signal_frame entries exits =
     map (\<lambda>(ce, cx). (fst ce, map (\<lambda>(e, x). astype_int e - astype_int x) (zip (snd ce) (snd cx))))
       (zip entries exits)"

text \<open>
  The moving average is vectorbt's \<^verbatim>\<open>MA.run(close, window).ma\<close>, which is not part of the
  repository: it is the parameter \<open>ma\<close>, a function of the close frame and the window
  that returns a frame (its column index already reduced to the last level, the
  symbol, as the source does) or raises. When it raises, \<^verbatim>\<open>generate_signals\<close> raises
  before it has assigned \<^verbatim>\<open>filtered_close\<close> or \<^verbatim>\<open>signals\<close>.
\<close>

type_synonym moving_average = "num table \<Rightarrow> int \<Rightarrow> error + num table"

definition sma_generate_signals ::
  "moving_average \<Rightarrow> 'p sma_strategy \<Rightarrow> error + 'p sma_strategy \<times> int table" where
  "sma_generate_signals ma self =
     (let close = price_data self;
          close = select_columns close (valid_symbols close (slow_window self))
      in bind_err (ma close (fast_window self)) (\<lambda>fast_ma.
         bind_err (ma close (slow_window self)) (\<lambda>slow_ma.
           let common_cols = intersection (columns fast_ma) (columns slow_ma);
               fast_ma = select_columns fast_ma common_cols;
               slow_ma = select_columns slow_ma common_cols;
               filtered = select_columns close common_cols
           in bind_err (frame_gt fast_ma slow_ma) (\<lambda>entries.
              bind_err (frame_lt fast_ma slow_ma) (\<lambda>exits.
                Inr (self\<lparr>filtered_close := Some filtered, signals := Some (entries, exits)\<rparr>,
                     signal_frame entries exits))))))"


text \<open>
  A concrete moving average, for the places that need one: the rolling mean over full
  windows, NaN where the window is not full or holds a NaN. Window 0 divides by zero,
  as vectorbt does. Windows below zero are not covered (vectorbt reads outside the
  array there); they yield NaN here.
\<close>

definition rolling_mean :: "nat \<Rightarrow> num list \<Rightarrow> num list" where
  "rolling_mean w xs =
     map (\<lambda>i. let win = take w (drop (Suc i - w) xs)
              in if 0 < w \<and> w \<le> Suc i \<and> list_all notna win
                 then num_div_count (num_sum win) w else NaN)
       [0 ..< length xs]"

definition rolling_ma :: moving_average where
  "rolling_ma close w =
     (if w = 0 then Inl ZeroDivisionError
      else Inr (map (\<lambda>c. (fst c, rolling_mean (nat w) (snd c))) close))"

subsection \<open>run_backtest\<close>

text \<open>
  \<^verbatim>\<open>run_backtest\<close> generates the signals when there are none yet, unpacks them, and hands
  \<^verbatim>\<open>filtered_close\<close> and both matrices to \<^verbatim>\<open>vbt.Portfolio.from_signals\<close> with
  \<^verbatim>\<open>init_cash=10\<close>, \<^verbatim>\<open>fees=0.001\<close>, \<^verbatim>\<open>slippage=0.0011\<close> and \<^verbatim>\<open>freq="1min"\<close>; it stores the
  portfolio and returns \<^verbatim>\<open>portfolio.value()\<close>, the equity table with one column per
  simulated symbol. Both vectorbt functions are parameters; either may raise.
\<close>

type_synonym 'p from_signals =
  "num table \<Rightarrow> bool table \<Rightarrow> bool table \<Rightarrow> real \<Rightarrow> real \<Rightarrow> real \<Rightarrow> string \<Rightarrow> error + 'p"

definition sma_run_backtest ::
  "moving_average \<Rightarrow> 'p from_signals \<Rightarrow> ('p \<Rightarrow> error + 'v) \<Rightarrow> 'p sma_strategy \<Rightarrow>
     error + 'p sma_strategy \<times> 'v" where
  "sma_run_backtest ma from_signals value self =
     bind_err (case signals self of
                 None \<Rightarrow> map_sum id fst (sma_generate_signals ma self)
               | Some _ \<Rightarrow> Inr self) (\<lambda>self.
       case signals self of
         None \<Rightarrow> Inl TypeError
       | Some (entries, exits) \<Rightarrow>
           (case filtered_close self of
              None \<Rightarrow> Inl AttributeError
            | Some close \<Rightarrow>
                bind_err (from_signals close entries exits 10 (1 / 1000) (11 / 10000) ''1min'')
                  (\<lambda>p. bind_err (value p)
                    (\<lambda>equity_curve. Inr (self\<lparr>portfolio := Some p\<rparr>, equity_curve)))))"


text \<open>
  \<^verbatim>\<open>backtester.py\<close>, \<^verbatim>\<open>Backtester.run\<close>: \<^verbatim>\<open>total_equity = equity_curve.sum(axis=1)\<close>, the
  sum across the symbols' columns at each of the \<open>n\<close> rows of the time index. NaN
  entries are skipped, as is a column that has no entry at the row, and a row with
  nothing to add sums to 0.0.
\<close>

definition total_equity :: "nat \<Rightarrow> num table \<Rightarrow> num list" where
  "total_equity n equity_curve =
     map (\<lambda>i. num_sum (filter notna
                (map (\<lambda>c. if i < length (snd c) then snd c ! i else NaN) equity_curve)))
       [0 ..< n]"

definition run_total_equity :: "nat \<Rightarrow> error + 'p sma_strategy \<times> num table \<Rightarrow> error + num list" where
  "run_total_equity n r = map_sum id (\<lambda>(self, equity_curve). total_equity n equity_curve) r"


subsection \<open>get_metrics\<close>

text \<open>
  \<^verbatim>\<open>portfolio.stats()\<close> is a labelled series computed by vectorbt; the repository only
  reads five of its labels. An entry is the missing-value marker \<^verbatim>\<open>pd.NA\<close>, a plain
  Python float (which is what \<^verbatim>\<open>nan\<close> for an undefined statistic is), a numpy
  \<^verbatim>\<open>float64\<close>, or itself a series. \<^verbatim>\<open>stats.get(key, pd.NA)\<close> yields \<^verbatim>\<open>pd.NA\<close> for an
  absent label. Only a numpy scalar and a series have a \<^verbatim>\<open>mean\<close>: on the scalar it is
  the scalar; on a series it skips NaN and is a numpy scalar, or the plain float
  \<^verbatim>\<open>nan\<close> when nothing is left.
\<close>

datatype stat = PdNA | PyFloat num | NpFloat num | Series "num list"

type_synonym stats = "(string \<times> stat) list"

record metrics =
  total_return :: num
  sharpe_ratio :: num
  max_drawdown :: num
  win_rate :: num
  expectancy :: num

definition stats_get :: "stats \<Rightarrow> string \<Rightarrow> stat \<Rightarrow> stat" where
  "stats_get st key dflt = (case map_of st key of None \<Rightarrow> dflt | Some v \<Rightarrow> v)"

definition mean_skipna :: "num list \<Rightarrow> stat" where
  "mean_skipna xs =
     (let ys = filter notna xs
      in if ys = [] then PyFloat NaN else NpFloat (num_div_count (num_sum ys) (length ys)))"

text \<open>\<^verbatim>\<open>x.mean()\<close> on whatever \<^verbatim>\<open>stats.get\<close> returned; the result is again a float object
  or a series mean.\<close>

definition mean_attr :: "stat \<Rightarrow> error + stat" where
  "mean_attr x =
     (case x of
        PdNA \<Rightarrow> Inl AttributeError
      | PyFloat v \<Rightarrow> Inl AttributeError
      | NpFloat v \<Rightarrow> Inr (NpFloat v)
      | Series xs \<Rightarrow> Inr (mean_skipna xs))"

text \<open>The float a metric holds, once it is a float object.\<close>

definition float_of :: "stat \<Rightarrow> num" where
  "float_of x = (case x of PyFloat v \<Rightarrow> v | NpFloat v \<Rightarrow> v | _ \<Rightarrow> NaN)"

text \<open>\<^verbatim>\<open>sma_cross.py\<close>: \<^verbatim>\<open>stats.get(key, pd.NA).mean()\<close>, with no fallback.\<close>

definition sma_stat :: "stats \<Rightarrow> string \<Rightarrow> error + num" where
  "sma_stat st key = map_sum id float_of (mean_attr (stats_get st key PdNA))"

definition sma_get_metrics :: "stats \<Rightarrow> error + metrics" where
  "sma_get_metrics st =
     bind_err (sma_stat st ''Total Return [%]'') (\<lambda>tr.
     bind_err (sma_stat st ''Sharpe Ratio'') (\<lambda>sr.
     bind_err (sma_stat st ''Max Drawdown [%]'') (\<lambda>md.
     bind_err (sma_stat st ''Win Rate [%]'') (\<lambda>wr.
     bind_err (sma_stat st ''Expectancy'') (\<lambda>ex.
       Inr \<lparr>total_return = tr, sharpe_ratio = sr, max_drawdown = md,
            win_rate = wr, expectancy = ex\<rparr>)))))"

text \<open>
  \<^verbatim>\<open>atr_based.py\<close>: \<^verbatim>\<open>safe_get\<close>. A series is averaged; anything else is returned when
  \<^verbatim>\<open>pd.notna\<close> holds, which it does for an infinity, and replaced by 0.0 otherwise.
\<close>

definition atr_safe_get :: "stats \<Rightarrow> string \<Rightarrow> num" where
  "atr_safe_get st key =
     (case stats_get st key PdNA of
        Series xs \<Rightarrow> float_of (mean_skipna xs)
      | PyFloat v \<Rightarrow> (if notna v then v else Num 0)
      | NpFloat v \<Rightarrow> (if notna v then v else Num 0)
      | PdNA \<Rightarrow> Num 0)"

definition atr_get_metrics :: "stats \<Rightarrow> metrics" where
  "atr_get_metrics st =
     \<lparr>total_return = atr_safe_get st ''Total Return [%]'',
      sharpe_ratio = atr_safe_get st ''Sharpe Ratio'',
      max_drawdown = atr_safe_get st ''Max Drawdown [%]'',
      win_rate = atr_safe_get st ''Win Rate [%]'',
      expectancy = atr_safe_get st ''Expectancy''\<rparr>"

text \<open>
  \<^verbatim>\<open>vwap_reversion.py\<close>: \<^verbatim>\<open>safe_get\<close> takes \<^verbatim>\<open>value.mean(skipna=True).mean()\<close> of a series,
  the mean of the mean, which raises when the first mean is the plain float
  \<^verbatim>\<open>nan\<close>; anything else is treated as in \<^verbatim>\<open>atr_based.py\<close>.
\<close>

definition vwap_safe_get :: "stats \<Rightarrow> string \<Rightarrow> error + num" where
  "vwap_safe_get st key =
     (case stats_get st key PdNA of
        Series xs \<Rightarrow> map_sum id float_of (mean_attr (mean_skipna xs))
      | PyFloat v \<Rightarrow> Inr (if notna v then v else Num 0)
      | NpFloat v \<Rightarrow> Inr (if notna v then v else Num 0)
      | PdNA \<Rightarrow> Inr (Num 0))"

definition vwap_get_metrics :: "stats \<Rightarrow> error + metrics" where
  "vwap_get_metrics st =
     bind_err (vwap_safe_get st ''Total Return [%]'') (\<lambda>tr.
     bind_err (vwap_safe_get st ''Sharpe Ratio'') (\<lambda>sr.
     bind_err (vwap_safe_get st ''Max Drawdown [%]'') (\<lambda>md.
     bind_err (vwap_safe_get st ''Win Rate [%]'') (\<lambda>wr.
     bind_err (vwap_safe_get st ''Expectancy'') (\<lambda>ex.
       Inr \<lparr>total_return = tr, sharpe_ratio = sr, max_drawdown = md,
            win_rate = wr, expectancy = ex\<rparr>)))))"

text \<open>
  Concrete inputs. The statistics vectorbt reports for a run that closed no trade: a
  total return of 0.0 and an infinite Sharpe ratio as numpy scalars, and the plain
  float \<^verbatim>\<open>nan\<close> for the maximal drawdown, the win rate and the expectancy. A price
  table in which one symbol has a single bar. A stand-in for the simulation that
  records the frames it is given and returns the close frame as its value.
\<close>

definition no_trade_stats :: stats where
  "no_trade_stats =
     [(''Total Return [%]'', NpFloat (Num 0)), (''Sharpe Ratio'', NpFloat PosInf),
      (''Max Drawdown [%]'', PyFloat NaN), (''Win Rate [%]'', PyFloat NaN),
      (''Expectancy'', PyFloat NaN)]"

definition short_history_data :: "num table" where
  "short_history_data =
     [(''AAA'', [Num 1, Num 2, Num 3]), (''BBB'', [NaN, NaN, Num 5])]"

definition short_history_strategy :: "(num table \<times> bool table \<times> bool table) sma_strategy" where
  "short_history_strategy =
     \<lparr>price_data = short_history_data, fast_window = 1, slow_window = 2,
      signals = None, portfolio = None, filtered_close = None\<rparr>"

definition recording_engine :: "(num table \<times> bool table \<times> bool table) from_signals" where
  "recording_engine close entries exits init_cash fees slippage freq = Inr (close, entries, exits)"

definition recorded_value :: "num table \<times> bool table \<times> bool table \<Rightarrow> error + num table" where
  "recorded_value p = Inr (fst p)"

section \<open>ATRBreakoutStrategy\<close>

text \<open>
  \<^verbatim>\<open>atr_based.py\<close>, \<^verbatim>\<open>generate_signals\<close>: the holding period is not handed to the
  simulation; it becomes exit signals. \<^verbatim>\<open>entries.shift(holding_period)\<close> moves every
  column down by the period (up when it is negative), \<^verbatim>\<open>fillna(False)\<close> fills the rows
  that were shifted in, and the result is or-ed with the stop's exits.
\<close>

definition shift_fill :: "int \<Rightarrow> bool list \<Rightarrow> bool list" where
  "shift_fill n xs =
     (if 0 \<le> n then replicate (min (nat n) (length xs)) False @ take (length xs - nat n) xs
      else drop (nat (- n)) xs @ replicate (min (nat (- n)) (length xs)) False)"

definition frame_or :: "bool table \<Rightarrow> bool table \<Rightarrow> bool table" where
  "frame_or a b =
     map (\<lambda>(ca, cb). (fst ca, map (\<lambda>(x, y). x \<or> y) (zip (snd ca) (snd cb)))) (zip a b)"

definition exits_by_time :: "bool table \<Rightarrow> int \<Rightarrow> bool table" where
  "exits_by_time entries holding_period =
     map (\<lambda>c. (fst c, shift_fill holding_period (snd c))) entries"

definition atr_exits :: "bool table \<Rightarrow> bool table \<Rightarrow> int \<Rightarrow> bool table" where
  "atr_exits entries exits_by_stop holding_period =
     frame_or exits_by_stop (exits_by_time entries holding_period)"

section \<open>Simulation engine\<close>

text \<open>
  Every \<^verbatim>\<open>run_backtest\<close> of the repository hands close, entries and exits to
  \<^verbatim>\<open>vbt.Portfolio.from_signals\<close> with \<^verbatim>\<open>init_cash=10\<close>, \<^verbatim>\<open>fees=0.001\<close> and
  \<^verbatim>\<open>slippage=0.0011\<close>; the simulation itself is vectorbt's and no file of the repository
  holds it. What follows is the per-symbol state machine as section 4.1 of the
  specification words it.
\<close>

text \<open>Modelled from the spec: the engine's configuration (section 4.1, \<^verbatim>\<open>config\<close>); the
  source has only the three literals above and no holding cap.\<close>

record config =
  initial_cash_per_symbol :: real
  fee_rate :: real
  slippage_rate :: real
  max_holding_bars :: "nat option"

text \<open>Modelled from the spec: the Position of section 3, absent from the source. A FLAT
  symbol has no position (\<open>None\<close>), which stands for \<^verbatim>\<open>is_open\<close>.\<close>

record position =
  entry_time :: nat
  entry_price :: real
  units :: real
  bars_held :: nat

text \<open>Modelled from the spec: the Trade of section 3, absent from the source. The
  specification gives no formula for \<^verbatim>\<open>gross_pnl\<close> and \<^verbatim>\<open>return_pct\<close>; they are left
  out.\<close>

record trade =
  trade_symbol :: string
  trade_entry_time :: nat
  trade_entry_price :: real
  exit_time :: nat
  exit_price :: real
  trade_units :: real
  net_pnl :: real

text \<open>Modelled from the spec: the state of one symbol's run, absent from the source: the
  position, the profit realized so far, the trade log and the equity curve, both in
  time order.\<close>

record sim_state =
  pos :: "position option"
  realized :: real
  trades :: "trade list"
  equity :: "real list"

definition init_state :: sim_state where
  "init_state = \<lparr>pos = None, realized = 0, trades = [], equity = []\<rparr>"

text \<open>Modelled from the spec: the time stop \<^verbatim>\<open>bars_held >= max_holding_bars\<close> of section
  4.1, absent from the source; no cap means no time stop.\<close>

definition time_stop :: "config \<Rightarrow> position \<Rightarrow> bool" where
  "time_stop cfg p = (case max_holding_bars cfg of None \<Rightarrow> False | Some m \<Rightarrow> bars_held p \<ge> m)"

text \<open>Modelled from the spec: the three transitions of section 4.1 and its equity rule,
  absent from the source (vectorbt's simulation stands there). A bar is its time index,
  its close and its two signals. FLAT with an entry opens at
  \<^verbatim>\<open>close * (1 + slippage_rate)\<close> for \<^verbatim>\<open>initial_cash_per_symbol / fill_price\<close> units; LONG
  with an exit or the time stop closes at \<^verbatim>\<open>close * (1 - slippage_rate)\<close> and realizes
  \<^verbatim>\<open>units*fill_price*(1-fee_rate) - units*entry_price*(1+fee_rate)\<close>; LONG otherwise counts
  the bar. Equity is \<^verbatim>\<open>initial_cash_per_symbol\<close> plus realized profit while FLAT, and
  realized profit plus \<^verbatim>\<open>units * close\<close> while LONG. The state decides which signal is
  looked at, which is the tie-break of section 4.1.\<close>

definition step :: "config \<Rightarrow> string \<Rightarrow> sim_state \<Rightarrow> nat \<times> real \<times> bool \<times> bool \<Rightarrow> sim_state" where
  "step cfg symbol st bar =
     (case bar of (t, close, entry, exit) \<Rightarrow>
        (case pos st of
           None \<Rightarrow>
             if entry then
               let fill_price = close * (1 + slippage_rate cfg);
                   u = initial_cash_per_symbol cfg / fill_price
               in st\<lparr>pos := Some \<lparr>entry_time = t, entry_price = fill_price,
                                    units = u, bars_held = 0\<rparr>,
                      equity := equity st @ [realized st + u * close]\<rparr>
             else st\<lparr>equity := equity st @ [initial_cash_per_symbol cfg + realized st]\<rparr>
         | Some p \<Rightarrow>
             if exit \<or> time_stop cfg p then
               let fill_price = close * (1 - slippage_rate cfg);
                   pnl = units p * fill_price * (1 - fee_rate cfg)
                         - units p * entry_price p * (1 + fee_rate cfg);
                   r = realized st + pnl
               in st\<lparr>pos := None, realized := r,
                      trades := trades st @
                        [\<lparr>trade_symbol = symbol, trade_entry_time = entry_time p,
                          trade_entry_price = entry_price p, exit_time = t,
                          exit_price = fill_price, trade_units = units p, net_pnl = pnl\<rparr>],
                      equity := equity st @ [initial_cash_per_symbol cfg + r]\<rparr>
             else st\<lparr>pos := Some (p\<lparr>bars_held := Suc (bars_held p)\<rparr>),
                     equity := equity st @ [realized st + units p * close]\<rparr>))"

text \<open>Modelled from the spec: one symbol's run, absent from the source: the transitions
  taken bar by bar in time order from a FLAT start; the result is the symbol's equity
  curve and its trades.\<close>

definition bars_of :: "real list \<Rightarrow> bool list \<Rightarrow> bool list \<Rightarrow> (nat \<times> real \<times> bool \<times> bool) list" where
  "bars_of closes entries exits = zip [0 ..< length closes] (zip closes (zip entries exits))"

definition simulate_symbol ::
  "config \<Rightarrow> string \<Rightarrow> real list \<Rightarrow> bool list \<Rightarrow> bool list \<Rightarrow> real list \<times> trade list" where
  "simulate_symbol cfg symbol closes entries exits =
     (let st = foldl (step cfg symbol) init_state (bars_of closes entries exits)
      in (equity st, trades st))"

text \<open>The three literals every \<^verbatim>\<open>run_backtest\<close> passes, with no holding cap.\<close>

definition backtest_config :: config where
  "backtest_config = \<lparr>initial_cash_per_symbol = 10, fee_rate = 1 / 1000,
     slippage_rate = 11 / 10000, max_holding_bars = None\<rparr>"

text \<open>
  Two trades of two runs correspond when they are the same position: same symbol, same
  bars, same fills, same size. \<open>fee_rel\<close> relates the states of two runs that differ in
  the fee rate only.
\<close>

definition corresponding :: "trade \<Rightarrow> trade \<Rightarrow> bool" where
  "corresponding a b =
     (trade_symbol a = trade_symbol b \<and> trade_entry_time a = trade_entry_time b \<and>
      trade_entry_price a = trade_entry_price b \<and> exit_time a = exit_time b \<and>
      exit_price a = exit_price b \<and> trade_units a = trade_units b)"

definition fee_rel :: "sim_state \<Rightarrow> sim_state \<Rightarrow> bool" where
  "fee_rel st1 st2 =
     (pos st1 = pos st2 \<and>
      list_all2 (\<lambda>a b. corresponding a b \<and> net_pnl b \<le> net_pnl a) (trades st1) (trades st2) \<and>
      (case pos st1 of None \<Rightarrow> True | Some p \<Rightarrow> 0 \<le> units p \<and> 0 \<le> entry_price p))"

section \<open>Properties\<close>

text \<open>
  C10. Constructing SMACrossoverStrategy with \<open>fast_window \<ge> slow_window\<close> raises
  ValueError, and no strategy object exists on which signals could be generated or a
  backtest run; with \<open>fast_window < slow_window\<close> construction succeeds, both windows
  and the price data are stored unchanged, and neither signals nor a portfolio have
  been computed yet.
\<close>

theorem sma_init_guard:
  "(fw \<ge> sw \<longrightarrow> (sma_init pd fw sw :: error + 'p sma_strategy) = Inl ValueError) \<and>
   (fw < sw \<longrightarrow>
      (\<exists>s :: 'p sma_strategy. sma_init pd fw sw = Inr s \<and> fast_window s = fw \<and>
         slow_window s = sw \<and> price_data s = pd \<and> signals s = None \<and>
         portfolio s = None \<and> filtered_close s = None))"
  by (simp add: sma_init_def)

theorem sma_init_guard_witness:
  "(sma_init [(''BTC'', [Num 1])] 50 10 :: error + unit sma_strategy) = Inl ValueError \<and>
   (sma_init [(''BTC'', [Num 1])] 30 30 :: error + unit sma_strategy) = Inl ValueError \<and>
   (\<exists>s :: unit sma_strategy. sma_init [(''BTC'', [Num 1])] 10 50 = Inr s \<and>
      fast_window s = 10 \<and> slow_window s = 50 \<and> price_data s = [(''BTC'', [Num 1])] \<and>
      signals s = None \<and> portfolio s = None \<and> filtered_close s = None)"
  using sma_init_guard [of 10 50 "[(''BTC'', [Num 1])]", where 'p = unit]
    sma_init_guard [of 30 30 "[(''BTC'', [Num 1])]", where 'p = unit]
    sma_init_guard [of 50 10 "[(''BTC'', [Num 1])]", where 'p = unit]
  by simp

subsection \<open>Metrics\<close>

text \<open>
  C1. The metrics of a run that closed no trade. The claim asks that nothing raises
  and that every undefined statistic becomes 0.0. \<^verbatim>\<open>SMACrossoverStrategy.get_metrics\<close>
  calls \<^verbatim>\<open>mean()\<close> on whatever \<^verbatim>\<open>stats.get\<close> returns, with no fallback: the maximal
  drawdown of such a run is the plain float \<^verbatim>\<open>nan\<close>, which has no \<^verbatim>\<open>mean\<close>, and the call
  raises AttributeError. The \<^verbatim>\<open>get_metrics\<close> of the two sibling strategies go through
  \<^verbatim>\<open>safe_get\<close> and return 0.0 for the three statistics that are NaN; the infinite
  Sharpe ratio passes through.
\<close>

theorem sma_get_metrics_raises_without_trades:
  "sma_get_metrics no_trade_stats = Inl AttributeError \<and>
   atr_get_metrics no_trade_stats =
     \<lparr>total_return = Num 0, sharpe_ratio = PosInf, max_drawdown = Num 0,
      win_rate = Num 0, expectancy = Num 0\<rparr> \<and>
   vwap_get_metrics no_trade_stats =
     Inr \<lparr>total_return = Num 0, sharpe_ratio = PosInf, max_drawdown = Num 0,
          win_rate = Num 0, expectancy = Num 0\<rparr>"
  by (simp add: sma_get_metrics_def atr_get_metrics_def vwap_get_metrics_def no_trade_stats_def
      sma_stat_def atr_safe_get_def vwap_safe_get_def stats_get_def bind_err_def notna_def
      mean_attr_def float_of_def)

text \<open>
  More generally \<^verbatim>\<open>SMACrossoverStrategy.get_metrics\<close> raises as soon as one of its five
  labels is absent, \<^verbatim>\<open>pd.NA\<close> or a plain float, and raises nothing but AttributeError;
  with scalar statistics \<^verbatim>\<open>safe_get\<close> never yields NaN.
\<close>

lemma sma_stat_error: "sma_stat st key = Inl e \<Longrightarrow> e = AttributeError"
  by (auto simp: sma_stat_def mean_attr_def split: stat.splits)

lemma sma_stat_raises:
  "stats_get st key PdNA = PdNA \<or> (\<exists>v. stats_get st key PdNA = PyFloat v) \<Longrightarrow>
   sma_stat st key = Inl AttributeError"
  by (auto simp: sma_stat_def mean_attr_def)

lemma sma_get_metrics_raises:
  assumes "key \<in> {''Total Return [%]'', ''Sharpe Ratio'', ''Max Drawdown [%]'',
      ''Win Rate [%]'', ''Expectancy''}"
    and "stats_get st key PdNA = PdNA \<or> (\<exists>v. stats_get st key PdNA = PyFloat v)"
  shows "sma_get_metrics st = Inl AttributeError"
proof -
  have r: "sma_stat st key = Inl AttributeError"
    using assms(2) by (rule sma_stat_raises)
  have e: "\<And>k. (\<exists>x. sma_stat st k = Inr x) \<or> sma_stat st k = Inl AttributeError"
    using sma_stat_error by (metis sum.exhaust_sel sum.collapse(1))
  show ?thesis
    using assms(1) r
      e[of "''Total Return [%]''"] e[of "''Sharpe Ratio''"] e[of "''Max Drawdown [%]''"]
      e[of "''Win Rate [%]''"] e[of "''Expectancy''"]
    by (auto simp: sma_get_metrics_def bind_err_def)
qed

lemma atr_safe_get_scalar:
  "\<forall>xs. stats_get st key PdNA \<noteq> Series xs \<Longrightarrow> notna (atr_safe_get st key)"
  by (cases "stats_get st key PdNA") (auto simp: atr_safe_get_def notna_def)

subsection \<open>Symbols kept by the SMA strategy\<close>






















lemma short_history_total_equity:
  "run_total_equity 3 (sma_run_backtest rolling_ma recording_engine recorded_value
       short_history_strategy) = Inr [Num 1, Num 2, Num 3]"
  by code_simp


text \<open>
  \<^verbatim>\<open>generate_signals\<close> raises what the moving average raises, as at \<open>fast_window = 0\<close>,
  which \<^verbatim>\<open>__init__\<close> accepts, or the ValueError of comparing frames that differ in
  their labels.
\<close>

lemma sma_generate_signals_window_zero:
  "sma_generate_signals rolling_ma (short_history_strategy\<lparr>fast_window := 0\<rparr>) =
     Inl ZeroDivisionError"
  by code_simp

lemma sma_generate_signals_error:
  "sma_generate_signals ma self = Inl e \<Longrightarrow>
     (\<exists>close w. ma close w = Inl e) \<or> e = ValueError"
  by (auto simp: sma_generate_signals_def Let_def bind_err_def frame_gt_def frame_lt_def
      split: sum.splits if_splits)

subsection \<open>A symbol without entry signals\<close>

lemma foldl_step_flat:
  "pos st = None \<Longrightarrow> \<forall>b \<in> set bars. \<not> fst (snd (snd b)) \<Longrightarrow>
   foldl (step cfg s) st bars =
     st\<lparr>equity := equity st @ replicate (length bars) (initial_cash_per_symbol cfg + realized st)\<rparr>"
proof (induction bars arbitrary: st)
  case Nil
  then show ?case by simp
next
  case (Cons b bars)
  obtain t c en ex where b: "b = (t, c, en, ex)" by (cases b) auto
  from Cons.prems have "\<not> en" by (simp add: b)
  with Cons.prems(1) have st: "step cfg s st b =
      st\<lparr>equity := equity st @ [initial_cash_per_symbol cfg + realized st]\<rparr>"
    by (simp add: step_def b)
  show ?case
    using Cons.prems Cons.IH[of "step cfg s st b"]
    by (simp add: st replicate_app_Cons_same)
qed

lemma bars_of_entries:
  "b \<in> set (bars_of closes entries exits) \<Longrightarrow> fst (snd (snd b)) \<in> set entries"
proof -
  assume mem: "b \<in> set (bars_of closes entries exits)"
  obtain t c en ex where b: "b = (t, c, en, ex)"
    using prod_cases4 by blast
  from mem have "(t, c, en, ex) \<in> set (zip [0 ..< length closes] (zip closes (zip entries exits)))"
    by (simp add: bars_of_def b)
  then have "(c, en, ex) \<in> set (zip closes (zip entries exits))"
    by (rule set_zip_rightD)
  then have "(en, ex) \<in> set (zip entries exits)"
    by (rule set_zip_rightD)
  then have "en \<in> set entries"
    by (rule set_zip_leftD)
  then show ?thesis by (simp add: b)
qed

lemma length_bars_of:
  "length entries = length closes \<Longrightarrow> length exits = length closes \<Longrightarrow>
   length (bars_of closes entries exits) = length closes"
  by (simp add: bars_of_def)

text \<open>
  C7. For a symbol whose entry signal is false at every bar, the run of the state
  machine of section 4.1 emits no trade and the symbol's equity is
  \<open>initial_cash_per_symbol\<close> at every time index of the run.
\<close>

theorem no_entry_flat_equity:
  assumes "\<forall>e \<in> set entries. \<not> e"
    and "length entries = length closes" and "length exits = length closes"
  shows "simulate_symbol cfg s closes entries exits =
    (replicate (length closes) (initial_cash_per_symbol cfg), [])"
proof -
  have "\<forall>b \<in> set (bars_of closes entries exits). \<not> fst (snd (snd b))"
    using assms(1) bars_of_entries by blast
  then have "foldl (step cfg s) init_state (bars_of closes entries exits) =
     init_state\<lparr>equity := equity init_state @
        replicate (length (bars_of closes entries exits))
          (initial_cash_per_symbol cfg + realized init_state)\<rparr>"
    by (intro foldl_step_flat) (simp_all add: init_state_def)
  then show ?thesis
    using assms(2,3) by (simp add: simulate_symbol_def init_state_def length_bars_of)
qed

theorem no_entry_flat_equity_witness:
  "simulate_symbol backtest_config ''BTC'' [100, 105, 95] [False, False, False]
     [False, True, False] = ([10, 10, 10], [])"
  using no_entry_flat_equity [of "[False, False, False]" "[100, 105, 95]"
      "[False, True, False]" backtest_config "''BTC''"]
  by (simp add: backtest_config_def numeral_3_eq_3)

subsection \<open>Fees\<close>

text \<open>
  In the state machine of section 4.1 neither the bars at which a position opens and
  closes nor its fills and size depend on the fee rate, and with positive prices the
  realized profit of each trade falls as the fee rate rises.
\<close>

lemma pnl_fee_mono:
  fixes u fx pe f1 f2 :: real
  assumes "0 \<le> u" "0 \<le> fx" "0 \<le> pe" "f1 \<le> f2"
  shows "u * fx * (1 - f2) - u * pe * (1 + f2) \<le> u * fx * (1 - f1) - u * pe * (1 + f1)"
proof -
  have "0 \<le> (f2 - f1) * (u * fx + u * pe)"
    using assms by (intro mult_nonneg_nonneg add_nonneg_nonneg) simp_all
  then show ?thesis by (simp add: algebra_simps)
qed

lemma step_fee_rel:
  assumes rel: "fee_rel st1 st2" and f: "f1 \<le> f2"
    and cash: "0 < initial_cash_per_symbol cfg"
    and slip: "0 \<le> slippage_rate cfg" "slippage_rate cfg < 1"
    and c: "0 < fst (snd bar)"
  shows "fee_rel (step (cfg\<lparr>fee_rate := f1\<rparr>) s st1 bar) (step (cfg\<lparr>fee_rate := f2\<rparr>) s st2 bar)"
proof -
  obtain t cl en ex where bar: "bar = (t, cl, en, ex)"
    using prod_cases4 by blast
  from c have cl: "0 < cl" by (simp add: bar)
  show ?thesis
  proof (cases "pos st1")
    case None
    with rel have p2: "pos st2 = None" by (simp add: fee_rel_def)
    have "0 \<le> cl * (1 + slippage_rate cfg)"
      using cl slip by simp
    moreover have "0 \<le> initial_cash_per_symbol cfg / (cl * (1 + slippage_rate cfg))"
      using cl slip cash by simp
    ultimately show ?thesis
      using rel None p2 by (simp add: step_def bar fee_rel_def Let_def)
  next
    case (Some p)
    with rel have p2: "pos st2 = Some p" by (simp add: fee_rel_def)
    from rel Some have nn: "0 \<le> units p" "0 \<le> entry_price p"
      by (simp_all add: fee_rel_def)
    have fx: "0 \<le> cl * (1 - slippage_rate cfg)"
      using cl slip by simp
    have ts: "time_stop (cfg\<lparr>fee_rate := f1\<rparr>) p = time_stop (cfg\<lparr>fee_rate := f2\<rparr>) p"
      by (simp add: time_stop_def)
    show ?thesis
    proof (cases "ex \<or> time_stop (cfg\<lparr>fee_rate := f1\<rparr>) p")
      case True
      then have True2: "ex \<or> time_stop (cfg\<lparr>fee_rate := f2\<rparr>) p" using ts by simp
      have "units p * (cl * (1 - slippage_rate cfg)) * (1 - f2) - units p * entry_price p * (1 + f2)
          \<le> units p * (cl * (1 - slippage_rate cfg)) * (1 - f1) - units p * entry_price p * (1 + f1)"
        using nn(1) fx nn(2) f by (rule pnl_fee_mono)
      then show ?thesis
        using rel Some p2 True True2
        by (simp add: step_def bar fee_rel_def Let_def corresponding_def list_all2_appendI)
    next
      case False
      then have False2: "\<not> (ex \<or> time_stop (cfg\<lparr>fee_rate := f2\<rparr>) p)" using ts by simp
      show ?thesis
        using rel Some p2 False False2 nn
        by (simp add: step_def bar fee_rel_def Let_def)
    qed
  qed
qed

lemma foldl_fee_rel:
  assumes "fee_rel st1 st2" "f1 \<le> f2" "0 < initial_cash_per_symbol cfg"
    "0 \<le> slippage_rate cfg" "slippage_rate cfg < 1" "\<forall>b \<in> set bars. 0 < fst (snd b)"
  shows "fee_rel (foldl (step (cfg\<lparr>fee_rate := f1\<rparr>) s) st1 bars)
                 (foldl (step (cfg\<lparr>fee_rate := f2\<rparr>) s) st2 bars)"
  using assms
proof (induction bars arbitrary: st1 st2)
  case Nil
  then show ?case by simp
next
  case (Cons b bars)
  have "fee_rel (step (cfg\<lparr>fee_rate := f1\<rparr>) s st1 b) (step (cfg\<lparr>fee_rate := f2\<rparr>) s st2 b)"
    using Cons.prems by (intro step_fee_rel) simp_all
  then show ?case
    using Cons.prems by (simp add: Cons.IH)
qed

lemma bars_of_closes:
  "b \<in> set (bars_of closes entries exits) \<Longrightarrow> fst (snd b) \<in> set closes"
proof -
  assume mem: "b \<in> set (bars_of closes entries exits)"
  obtain t c en ex where b: "b = (t, c, en, ex)"
    using prod_cases4 by blast
  from mem have "(t, c, en, ex) \<in> set (zip [0 ..< length closes] (zip closes (zip entries exits)))"
    by (simp add: bars_of_def b)
  then have "(c, en, ex) \<in> set (zip closes (zip entries exits))"
    by (rule set_zip_rightD)
  then have "c \<in> set closes"
    by (rule set_zip_leftD)
  then show ?thesis by (simp add: b)
qed

lemma fee_monotone:
  assumes "f1 \<le> f2" "0 < initial_cash_per_symbol cfg"
    "0 \<le> slippage_rate cfg" "slippage_rate cfg < 1" "\<forall>c \<in> set closes. 0 < c"
  shows "list_all2 (\<lambda>a b. corresponding a b \<and> net_pnl b \<le> net_pnl a)
           (snd (simulate_symbol (cfg\<lparr>fee_rate := f1\<rparr>) s closes entries exits))
           (snd (simulate_symbol (cfg\<lparr>fee_rate := f2\<rparr>) s closes entries exits))"
proof -
  have "\<forall>b \<in> set (bars_of closes entries exits). 0 < fst (snd b)"
    using assms(5) bars_of_closes by blast
  moreover have "fee_rel init_state init_state"
    by (simp add: fee_rel_def init_state_def)
  ultimately have "fee_rel
      (foldl (step (cfg\<lparr>fee_rate := f1\<rparr>) s) init_state (bars_of closes entries exits))
      (foldl (step (cfg\<lparr>fee_rate := f2\<rparr>) s) init_state (bars_of closes entries exits))"
    using assms(1-4) by (intro foldl_fee_rel) simp_all
  then show ?thesis
    by (simp add: simulate_symbol_def fee_rel_def Let_def)
qed

subsection \<open>Signals\<close>

text \<open>
  The SMA strategy never raises both signals on one bar: entries are
  \<^verbatim>\<open>fast_ma > slow_ma\<close> and exits \<^verbatim>\<open>fast_ma < slow_ma\<close> over the same two frames.
\<close>

lemma num_gt_asym: "\<not> (num_gt x y \<and> num_gt y x)"
  by (cases x; cases y) auto

lemma aligned_nth:
  assumes "aligned a b" "i < length a"
  shows "i < length b \<and> length (snd (a ! i)) = length (snd (b ! i))"
proof -
  from assms(1) have l: "length a = length b"
    by (auto simp: aligned_def columns_def dest: map_eq_imp_length_eq)
  from assms(1) have "map (length \<circ> snd) a ! i = map (length \<circ> snd) b ! i"
    by (simp add: aligned_def)
  with assms(2) l show ?thesis by simp
qed

lemma frame_gt_lt_exclusive:
  assumes "frame_gt a b = Inr en" "frame_lt a b = Inr ex"
    and "i < length a" "t < length (snd (a ! i))"
  shows "\<not> (snd (en ! i) ! t \<and> snd (ex ! i) ! t)"
proof -
  from assms(1) have al: "aligned a b"
    by (simp add: frame_gt_def split: if_splits)
  note n = aligned_nth[OF al assms(3)]
  have en: "en = map (\<lambda>(ca, cb). (fst ca, map (\<lambda>(x, y). num_gt x y) (zip (snd ca) (snd cb)))) (zip a b)"
    using assms(1) al by (simp add: frame_gt_def)
  have ex: "ex = map (\<lambda>(ca, cb). (fst ca, map (\<lambda>(x, y). num_gt y x) (zip (snd ca) (snd cb)))) (zip a b)"
    using assms(2) al by (simp add: frame_lt_def)
  show ?thesis
    using n assms(3,4) num_gt_asym[of "snd (a ! i) ! t" "snd (b ! i) ! t"]
    by (simp add: en ex)
qed

lemma sma_signals_form:
  assumes "sma_generate_signals ma self = Inr (self', frame)"
  shows "\<exists>a b en ex. frame_gt a b = Inr en \<and> frame_lt a b = Inr ex \<and>
           signals self' = Some (en, ex)"
proof -
  from assms obtain a b en ex where "frame_gt a b = Inr en" "frame_lt a b = Inr ex"
    "signals self' = Some (en, ex)"
    by (auto simp: sma_generate_signals_def Let_def bind_err_def split: sum.splits)
  then show ?thesis by blast
qed

text \<open>
  The ATR strategy's holding period: \<open>holding_period\<close> bars after every entry signal
  the exits handed to the simulation carry a signal, whatever the stop says and whether
  or not that entry signal opened a position.
\<close>

lemma shift_fill_nth:
  assumes "0 \<le> n" "t + nat n < length xs"
  shows "shift_fill n xs ! (t + nat n) = xs ! t"
  using assms by (simp add: shift_fill_def nth_append min_def)

lemma frame_or_nth:
  assumes "i < length a" "i < length b" "t < length (snd (a ! i))" "t < length (snd (b ! i))"
  shows "snd (frame_or a b ! i) ! t = (snd (a ! i) ! t \<or> snd (b ! i) ! t)"
  using assms by (simp add: frame_or_def)

lemma atr_time_exit:
  assumes "i < length entries" "length exits_by_stop = length entries"
    and "length (snd (exits_by_stop ! i)) = length (snd (entries ! i))"
    and "0 \<le> holding_period" "t + nat holding_period < length (snd (entries ! i))"
    and "snd (entries ! i) ! t"
  shows "snd (atr_exits entries exits_by_stop holding_period ! i) ! (t + nat holding_period)"
proof -
  have len: "length (shift_fill holding_period (snd (entries ! i))) = length (snd (entries ! i))"
    using assms(4) by (simp add: shift_fill_def)
  have "snd (exits_by_time entries holding_period ! i) ! (t + nat holding_period)"
    using assms by (simp add: exits_by_time_def shift_fill_nth)
  then show ?thesis
    unfolding atr_exits_def
    using assms len by (simp add: frame_or_nth exits_by_time_def)
qed

subsection \<open>The scenario of section 8\<close>

text \<open>
  One symbol, closes 100, 105, 95, 110, 120, an entry at bar 0 and an exit at bar 4,
  under the state machine of section 4.1 with the literals of \<^verbatim>\<open>run_backtest\<close>: one
  trade, whose \<^verbatim>\<open>net_pnl\<close> by the formula of section 4.1 is 3256337/1668500, between
  1.951 and 1.952.
\<close>

lemma scenario_run:
  "simulate_symbol backtest_config ''BTC'' [100, 105, 95, 110, 120]
     [True, False, False, False, False] [False, False, False, False, True] =
   ([100000 / 10011, 35000 / 3337, 95000 / 10011, 110000 / 10011, 19941337 / 1668500],
    [\<lparr>trade_symbol = ''BTC'', trade_entry_time = 0, trade_entry_price = 10011 / 100,
      exit_time = 4, exit_price = 29967 / 250, trade_units = 1000 / 10011,
      net_pnl = 3256337 / 1668500\<rparr>])"
  by code_simp

lemma scenario_net_pnl: "(1951 :: real) / 1000 < 3256337 / 1668500 \<and> (3256337 :: real) / 1668500 < 1952 / 1000"
  by simp

end
